theory Spec2Isabelle
  imports Main
begin

section \<open>Values exchanged over HTTP\<close>

text \<open>
  The service of \<^verbatim>\<open>backend/server.js\<close> reads JSON request bodies, answers with JSON, and
  talks JSON to the generation runtime. A JSON value as JavaScript holds it after parsing;
  a property that is absent reads as \<^verbatim>\<open>undefined\<close>, which is \<open>None\<close> of \<open>json option\<close>.
  The properties of an object are listed once each. Numbers are kept as integers:
  fractional numbers are outside this development.
\<close>

datatype json =
    JNull
  | JBool bool
  | JNum int
  | JStr string
  | JArr "json list"
  | JObj "(string \<times> json) list"

text \<open>JavaScript's truthiness, as \<^verbatim>\<open>!x\<close> and \<^verbatim>\<open>x || y\<close> decide it.\<close>

fun truthy :: "json option \<Rightarrow> bool" where
  "truthy None = False"
| "truthy (Some JNull) = False"
| "truthy (Some (JBool b)) = b"
| "truthy (Some (JNum n)) = (n \<noteq> 0)"
| "truthy (Some (JStr s)) = (s \<noteq> [])"
| "truthy (Some (JArr xs)) = True"
| "truthy (Some (JObj kvs)) = True"

text \<open>\<^verbatim>\<open>x || d\<close> for a value \<open>x\<close> that may be \<^verbatim>\<open>undefined\<close> and a default \<open>d\<close>.\<close>

fun or_else :: "json option \<Rightarrow> json \<Rightarrow> json" where
  "or_else None d = d"
| "or_else (Some v) d = (if truthy (Some v) then v else d)"

text \<open>The same for an environment variable, which is a string when it is set.\<close>

fun or_default :: "string option \<Rightarrow> string \<Rightarrow> string" where
  "or_default None d = d"
| "or_default (Some s) d = (if s = [] then d else s)"

text \<open>
  \<^verbatim>\<open>v.p\<close> for a value \<open>v\<close> other than \<^verbatim>\<open>null\<close> and one of the property names the source reads
  (\<^verbatim>\<open>response\<close>, \<^verbatim>\<open>models\<close>, \<^verbatim>\<open>name\<close>): an object has the property or not; a string, a
  number, a boolean and an array have none of these.
\<close>

fun read_prop :: "json \<Rightarrow> string \<Rightarrow> json option" where
  "read_prop (JObj kvs) p = map_of kvs p"
| "read_prop v p = None"

text \<open>
  An object literal handed to \<^verbatim>\<open>res.json\<close>: serialisation leaves out every property whose
  value is \<^verbatim>\<open>undefined\<close>.
\<close>

fun js_object :: "(string \<times> json option) list \<Rightarrow> json" where
  "js_object kvs = JObj (List.map_filter (\<lambda>(k, v). map_option (Pair k) v) kvs)"

section \<open>Requests and responses\<close>

text \<open>
  The routes the application registers; \<open>R_other\<close> is any path none of them matches.
\<close>

datatype route = R_signup | R_login | R_chat | R_root | R_health_ollama | R_other

text \<open>
  \<^verbatim>\<open>req.body\<close>, by the properties the handlers read. The fields of the account routes are
  strings when present, as the user schema declares them; \<^verbatim>\<open>message\<close> is forwarded to the
  runtime untouched and may be any JSON value.
\<close>

record req_body =
  username :: "string option"
  email :: "string option"
  password :: "string option"
  phone :: "string option"
  usernameOrEmail :: "string option"
  message :: "json option"

text \<open>The body \<^verbatim>\<open>{}\<close>.\<close>

definition empty_body :: req_body where
  "empty_body = \<lparr>username = None, email = None, password = None, phone = None,
                  usernameOrEmail = None, message = None\<rparr>"

text \<open>
  A request as it arrives: the verb, the route its path matches, and what \<^verbatim>\<open>express.json()\<close>
  makes of its body, either the parsed body (\<open>Inr\<close>; \<^verbatim>\<open>{}\<close> for a request without one) or the
  status of the error it raises (\<open>Inl\<close>; 400 for a body that does not parse).
\<close>

record request =
  req_method :: string
  route :: route
  json_body :: "nat + req_body"

text \<open>
  \<^verbatim>\<open>req.body\<close>: \<^verbatim>\<open>express.json()\<close> sets it to \<^verbatim>\<open>{}\<close> before it reads the body, and to the
  parsed body when that succeeds.
\<close>

definition body :: "request \<Rightarrow> req_body" where
  "body rq = (case json_body rq of Inr b \<Rightarrow> b | Inl code \<Rightarrow> empty_body)"

text \<open>
  A response: its status, the header fields the source itself sets with \<^verbatim>\<open>res.set\<close> (those
  the libraries add, such as the content type and the CORS fields, are not listed), and
  what is written.
\<close>

datatype payload = Json json | Text string | Empty

record response =
  status :: nat
  headers :: "(string \<times> string) list"
  content :: payload

definition res_json :: "nat \<Rightarrow> json \<Rightarrow> response" where
  "res_json code v = \<lparr>status = code, headers = [], content = Json v\<rparr>"

section \<open>The user collection\<close>

text \<open>
  A document of the \<^verbatim>\<open>User\<close> model: \<^verbatim>\<open>username\<close> and \<^verbatim>\<open>email\<close> are unique and required,
  \<^verbatim>\<open>passwordHash\<close> is required, \<^verbatim>\<open>phone\<close> is optional. The collection is the list of its
  documents in insertion order.
\<close>

record user =
  doc_id :: string
  doc_username :: string
  doc_email :: string
  doc_passwordHash :: string
  doc_phone :: "string option"

type_synonym store = "user list"

section \<open>The environment of a request\<close>

text \<open>
  What a thrown error or a rejected promise carries, as far as the handlers look at it:
  \<^verbatim>\<open>err.message\<close>, \<^verbatim>\<open>err.code\<close> and, when the runtime answered, \<^verbatim>\<open>err.response.status\<close>.
\<close>

record js_error =
  err_message :: string
  err_code :: "string option"
  err_response_status :: "nat option"

text \<open>
  The errors the language itself throws in the handlers: reading a property of \<^verbatim>\<open>null\<close>,
  and calling what is not a function.
\<close>

datatype type_error = ReadOfNull string | NotAFunction string

text \<open>
  What the HTTP client resolves with: \<^verbatim>\<open>response.status\<close> and \<^verbatim>\<open>response.data\<close>, the body
  parsed as JSON (a string when it does not parse).
\<close>

record axios_response =
  http_status :: nat
  data :: json

record generate_request =
  model :: string
  prompt :: json
  stream :: bool

text \<open>
  Everything outside the handlers that a request meets: the process environment, the HTTP
  client, the hashing library, the identifier the driver draws for a new document,
  whether the store refuses a write for a reason of its own, the wording the engine gives
  a \<^verbatim>\<open>TypeError\<close>, and the page Express writes for an error no handler caught. An awaited
  call either resolves (\<open>Inr\<close>) or rejects (\<open>Inl\<close>).
\<close>

record world =
  OLLAMA_URL :: "string option"
  axios_get :: "string \<Rightarrow> nat option \<Rightarrow> js_error + axios_response"
  axios_post :: "string \<Rightarrow> generate_request \<Rightarrow> nat \<Rightarrow> js_error + axios_response"
  bcrypt_hash :: "string \<Rightarrow> nat \<Rightarrow> string"
  bcrypt_compare :: "string \<Rightarrow> string \<Rightarrow> bool"
  ObjectId :: string
  store_fault :: "string option"
  TypeError_message :: "type_error \<Rightarrow> string"
  error_page :: "nat \<Rightarrow> string"

text \<open>A \<^verbatim>\<open>TypeError\<close> has a message, and neither a \<^verbatim>\<open>code\<close> nor a \<^verbatim>\<open>response\<close>.\<close>

definition TypeError :: "world \<Rightarrow> type_error \<Rightarrow> js_error" where
  "TypeError w t =
     \<lparr>err_message = TypeError_message w t, err_code = None, err_response_status = None\<rparr>"

text \<open>\<^verbatim>\<open>v.p\<close> for any value \<open>v\<close>: reading a property of \<^verbatim>\<open>null\<close> throws.\<close>

definition get_prop :: "world \<Rightarrow> json \<Rightarrow> string \<Rightarrow> js_error + json option" where
  "get_prop w v p = (if v = JNull then Inl (TypeError w (ReadOfNull p)) else Inr (read_prop v p))"

text \<open>The requests a handler sends to the runtime, in order.\<close>

datatype call =
    AxiosGet string "nat option"
  | AxiosPost string generate_request nat

text \<open>What handling one request amounts to.\<close>

record result =
  calls :: "call list"
  sent :: "response option"
  users :: store

definition ollamaUrl :: "world \<Rightarrow> string" where
  "ollamaUrl w = or_default (OLLAMA_URL w) ''http://localhost:11434''"

section \<open>Account handlers\<close>

text \<open>
  The store engine is an external collaborator; \<^verbatim>\<open>User.create\<close> is taken from the schema the
  source declares. A document is refused when a required string is empty, when the store
  refuses the write for a reason of its own, or when its identifier, \<^verbatim>\<open>username\<close> or
  \<^verbatim>\<open>email\<close> is already taken; otherwise it is appended, whole. A refused write leaves the
  collection as it was.
\<close>

datatype store_error = ValidationError | StoreFault string | DuplicateKey

definition User_create ::
  "world \<Rightarrow> store \<Rightarrow> string \<Rightarrow> string \<Rightarrow> string \<Rightarrow> string option \<Rightarrow> store_error + user \<times> store"
where
  "User_create w s uname mail hash ph =
    (if uname = [] \<or> mail = [] \<or> hash = [] then Inl ValidationError
     else case store_fault w of
       Some reason \<Rightarrow> Inl (StoreFault reason)
     | None \<Rightarrow>
         if list_ex (\<lambda>u. doc_id u = ObjectId w \<or> doc_username u = uname \<or> doc_email u = mail) s
         then Inl DuplicateKey
         else
           let doc = \<lparr>doc_id = ObjectId w, doc_username = uname, doc_email = mail,
                      doc_passwordHash = hash, doc_phone = ph\<rparr>
           in Inr (doc, s @ [doc]))"

text \<open>
  \<^verbatim>\<open>User.findOne({ $or: [{ username: x }, { email: x }] })\<close>: the first document, in
  insertion order, whose \<^verbatim>\<open>username\<close> or \<^verbatim>\<open>email\<close> is \<open>x\<close>.
\<close>

definition User_findOne :: "store \<Rightarrow> string \<Rightarrow> user option" where
  "User_findOne s x = find (\<lambda>u. doc_username u = x \<or> doc_email u = x) s"

definition missing_fields :: response where
  "missing_fields = res_json 400 (js_object [(''error'', Some (JStr ''Missing fields''))])"

text \<open>
  \<^verbatim>\<open>app.post('/signup', ...)\<close>: the response and the collection afterwards. The guard
  \<^verbatim>\<open>!username || !email || !password\<close> holds when one of the three is absent or is the
  empty string.
\<close>

definition signup :: "world \<Rightarrow> store \<Rightarrow> req_body \<Rightarrow> response \<times> store" where
  "signup w s b =
    (case (username b, email b, password b) of
       (Some uname, Some mail, Some pw) \<Rightarrow>
         if uname = [] \<or> mail = [] \<or> pw = [] then (missing_fields, s)
         else
           let passwordHash = bcrypt_hash w pw 10
           in (case User_create w s uname mail passwordHash (phone b) of
                 Inr (doc, s') \<Rightarrow>
                   (res_json 201 (js_object [(''message'', Some (JStr ''User created'')),
                                             (''userId'', Some (JStr (doc_id doc)))]), s')
               | Inl err \<Rightarrow>
                   (res_json 400 (js_object
                      [(''error'', Some (JStr ''User already exists or invalid data''))]), s))
     | _ \<Rightarrow> (missing_fields, s))"

definition invalid_credentials :: response where
  "invalid_credentials = res_json 401 (js_object [(''error'', Some (JStr ''Invalid credentials''))])"

text \<open>\<^verbatim>\<open>app.post('/login', ...)\<close>; the collection is only read.\<close>

definition login :: "world \<Rightarrow> store \<Rightarrow> req_body \<Rightarrow> response" where
  "login w s b =
    (case (usernameOrEmail b, password b) of
       (Some x, Some pw) \<Rightarrow>
         if x = [] \<or> pw = [] then missing_fields
         else
           (case User_findOne s x of
              Some doc \<Rightarrow>
                if bcrypt_compare w pw (doc_passwordHash doc)
                then res_json 200 (js_object
                       [(''message'', Some (JStr ''Login successful'')),
                        (''userId'', Some (JStr (doc_id doc))),
                        (''username'', Some (JStr (doc_username doc))),
                        (''email'', Some (JStr (doc_email doc))),
                        (''phone'', map_option JStr (doc_phone doc))])
                else invalid_credentials
            | None \<Rightarrow> invalid_credentials)
     | _ \<Rightarrow> missing_fields)"

section \<open>Chat relay\<close>

text \<open>The \<^verbatim>\<open>catch\<close> block of the chat handler: the first test that holds decides.\<close>

definition chat_catch :: "js_error \<Rightarrow> response" where
  "chat_catch err =
    (if err_code err = Some ''ECONNREFUSED'' then
       res_json 503 (js_object [(''error'', Some (JStr
         ''Cannot connect to Ollama service. Please ensure Ollama is running.''))])
     else if err_response_status err = Some 404 then
       res_json 404 (js_object [(''error'', Some (JStr
         ''The specified AI model is not available. Please check if llama3.2:1b-instruct-q4_K_M is installed.''))])
     else if err_code err = Some ''ENOTFOUND'' then
       res_json 503 (js_object [(''error'', Some (JStr
         ''Ollama service not found. Please check your network configuration.''))])
     else
       res_json 500 (js_object [(''error'', Some (JStr
         (''Failed to get response from Ollama: '' @ err_message err)))]))"

definition no_message :: response where
  "no_message = res_json 400 (js_object [(''error'', Some (JStr ''No message provided.''))])"

text \<open>
  \<^verbatim>\<open>app.post('/chat', ...)\<close>: the requests sent to the runtime and the response. The
  model listing fetched first is only logged, whether it resolves or rejects; it is sent
  without a time limit, the generation request with one of 30000 ms. What the \<^verbatim>\<open>try\<close>
  block throws, a rejected generation call or a \<^verbatim>\<open>TypeError\<close> on reading the reply, goes
  to the \<^verbatim>\<open>catch\<close> block.
\<close>

definition chat_post :: "world \<Rightarrow> req_body \<Rightarrow> call list \<times> response" where
  "chat_post w b =
    (case message b of
       None \<Rightarrow> ([], no_message)
     | Some userMessage \<Rightarrow>
         if \<not> truthy (Some userMessage) then ([], no_message)
         else
           let url = ollamaUrl w;
               logged = (case axios_get w (url @ ''/api/tags'') None of
                           Inr modelsResponse \<Rightarrow> ()
                         | Inl error \<Rightarrow> ());
               payload = \<lparr>model = ''llama3.2:1b-instruct-q4_K_M'', prompt = userMessage, stream = False\<rparr>;
               attempt =
                 (case axios_post w (url @ ''/api/generate'') payload 30000 of
                    Inl err \<Rightarrow> Inl err
                  | Inr ollamaResponse \<Rightarrow>
                      if http_status ollamaResponse \<noteq> 200
                      then Inr (res_json 500 (js_object [(''error'', Some (JStr ''Ollama API error.''))]))
                      else
                        (case get_prop w (data ollamaResponse) ''response'' of
                           Inl err \<Rightarrow> Inl err
                         | Inr found \<Rightarrow>
                             let reply = or_else found (JStr ''No response from AI model.'')
                             in Inr (res_json 200 (js_object [(''reply'', Some reply)]))))
           in ([AxiosGet (url @ ''/api/tags'') None,
                AxiosPost (url @ ''/api/generate'') payload 30000],
               case attempt of
                 Inl err \<Rightarrow> chat_catch err
               | Inr res \<Rightarrow> res))"

text \<open>\<^verbatim>\<open>app.all('/chat', ...)\<close>: writes nothing when the verb is POST.\<close>

definition chat_all :: "string \<Rightarrow> response option" where
  "chat_all m =
    (if m \<noteq> ''POST'' then
       Some \<lparr>status = 405, headers = [(''Allow'', ''POST'')],
             content = Json (js_object [(''error'', Some (JStr
               ''Method Not Allowed. Only POST is supported on this endpoint.''))])\<rparr>
     else None)"

section \<open>Health\<close>

definition root :: response where
  "root = \<lparr>status = 200, headers = [], content = Text ''Backend is running!''\<rparr>"

text \<open>
  \<^verbatim>\<open>models.some(model => model.name === 'llama3.2:1b-instruct-q4_K_M')\<close> on an array: the
  entries are visited in order until one has that name; reading the name of a \<^verbatim>\<open>null\<close>
  entry throws.
\<close>

fun models_some :: "world \<Rightarrow> json list \<Rightarrow> js_error + bool" where
  "models_some w [] = Inr False"
| "models_some w (entry # rest) =
     (case get_prop w entry ''name'' of
        Inl error \<Rightarrow> Inl error
      | Inr found \<Rightarrow>
          if found = Some (JStr ''llama3.2:1b-instruct-q4_K_M'') then Inr True
          else models_some w rest)"

text \<open>
  \<^verbatim>\<open>models.map(m => m.name)\<close> on an array, as \<^verbatim>\<open>res.json\<close> writes it: every entry is visited,
  and a name that is \<^verbatim>\<open>undefined\<close> is written as \<^verbatim>\<open>null\<close>.
\<close>

fun models_map :: "world \<Rightarrow> json list \<Rightarrow> js_error + json list" where
  "models_map w [] = Inr []"
| "models_map w (m # rest) =
     (case get_prop w m ''name'' of
        Inl error \<Rightarrow> Inl error
      | Inr found \<Rightarrow>
          (case models_map w rest of
             Inl error \<Rightarrow> Inl error
           | Inr names \<Rightarrow> Inr (or_else found JNull # names)))"

text \<open>
  The \<^verbatim>\<open>try\<close> block of the health handler once the listing call has resolved. A value
  of \<^verbatim>\<open>models\<close> that is truthy and not an array has no \<^verbatim>\<open>some\<close> to call.
\<close>

definition health_try :: "world \<Rightarrow> string \<Rightarrow> axios_response \<Rightarrow> js_error + response" where
  "health_try w url response =
    (case get_prop w (data response) ''models'' of
       Inl error \<Rightarrow> Inl error
     | Inr found \<Rightarrow>
         (case or_else found (JArr []) of
            JArr models \<Rightarrow>
              (case models_some w models of
                 Inl error \<Rightarrow> Inl error
               | Inr hasRequiredModel \<Rightarrow>
                   (case models_map w models of
                      Inl error \<Rightarrow> Inl error
                    | Inr names \<Rightarrow>
                        Inr (res_json 200 (js_object
                          [(''status'', Some (JStr ''healthy'')),
                           (''ollama_url'', Some (JStr url)),
                           (''models_available'', Some (JNum (int (length models)))),
                           (''required_model_available'', Some (JBool hasRequiredModel)),
                           (''models'', Some (JArr names))]))))
          | other \<Rightarrow> Inl (TypeError w (NotAFunction ''models.some''))))"

text \<open>The \<^verbatim>\<open>catch\<close> block of the health handler.\<close>

definition health_catch :: "world \<Rightarrow> js_error \<Rightarrow> response" where
  "health_catch w error =
     res_json 503 (js_object
       [(''status'', Some (JStr ''unhealthy'')),
        (''error'', Some (JStr (err_message error))),
        (''ollama_url'', Some (JStr (ollamaUrl w)))])"

text \<open>
  \<^verbatim>\<open>app.get('/health/ollama', ...)\<close>: one listing request, limited to 5000 ms. What the
  \<^verbatim>\<open>try\<close> block throws, a rejected listing call or a \<^verbatim>\<open>TypeError\<close> on reading the
  listing, goes to the \<^verbatim>\<open>catch\<close> block.
\<close>

definition health_ollama :: "world \<Rightarrow> call list \<times> response" where
  "health_ollama w =
    (let url = ollamaUrl w;
         attempt = (case axios_get w (url @ ''/api/tags'') (Some 5000) of
                      Inl error \<Rightarrow> Inl error
                    | Inr response \<Rightarrow> health_try w url response)
     in ([AxiosGet (url @ ''/api/tags'') (Some 5000)],
         case attempt of
           Inr res \<Rightarrow> res
         | Inl error \<Rightarrow> health_catch w error))"

section \<open>The application\<close>

text \<open>
  Routes are tried in the order the source registers them and the first that matches the
  verb and the path answers. A GET route also serves HEAD. Where no route answers, \<open>sent\<close>
  is \<open>None\<close>: the handlers of the source have written nothing.
\<close>

definition is_get :: "string \<Rightarrow> bool" where
  "is_get m = (m = ''GET'' \<or> m = ''HEAD'')"

definition routes :: "world \<Rightarrow> store \<Rightarrow> request \<Rightarrow> result" where
  "routes w s rq =
    (if req_method rq = ''POST'' \<and> route rq = R_signup then
       (case signup w s (body rq) of (r, s') \<Rightarrow> \<lparr>calls = [], sent = Some r, users = s'\<rparr>)
     else if req_method rq = ''POST'' \<and> route rq = R_login then
       \<lparr>calls = [], sent = Some (login w s (body rq)), users = s\<rparr>
     else if req_method rq = ''POST'' \<and> route rq = R_chat then
       (case chat_post w (body rq) of (cs, r) \<Rightarrow> \<lparr>calls = cs, sent = Some r, users = s\<rparr>)
     else if route rq = R_chat then
       \<lparr>calls = [], sent = chat_all (req_method rq), users = s\<rparr>
     else if is_get (req_method rq) \<and> route rq = R_root then
       \<lparr>calls = [], sent = Some root, users = s\<rparr>
     else if is_get (req_method rq) \<and> route rq = R_health_ollama then
       (case health_ollama w of (cs, r) \<Rightarrow> \<lparr>calls = cs, sent = Some r, users = s\<rparr>)
     else \<lparr>calls = [], sent = None, users = s\<rparr>)"

text \<open>
  The middleware mounted before the routes, in the order of the source. \<^verbatim>\<open>cors()\<close> answers
  every OPTIONS request itself, as a preflight: status 204, no body, and the request goes
  no further. \<^verbatim>\<open>express.json()\<close> hands the request on with its body parsed, or raises an
  error that no handler of the source catches: Express then answers with the error's
  status and a page of its own. Logging, which no response depends on, is left out, and
  an awaited call that never settles has no outcome and is not represented.
\<close>

definition cors_preflight :: response where
  "cors_preflight = \<lparr>status = 204, headers = [], content = Empty\<rparr>"

definition app :: "world \<Rightarrow> store \<Rightarrow> request \<Rightarrow> result" where
  "app w s rq =
    (if req_method rq = ''OPTIONS'' then
       \<lparr>calls = [], sent = Some cors_preflight, users = s\<rparr>
     else case json_body rq of
       Inl code \<Rightarrow>
         \<lparr>calls = [],
          sent = Some \<lparr>status = code, headers = [], content = Text (error_page w code)\<rparr>,
          users = s\<rparr>
     | Inr parsed \<Rightarrow> routes w s rq)"

text \<open>Requests handled one after the other, each in the world it meets.\<close>

fun serve :: "store \<Rightarrow> (world \<times> request) list \<Rightarrow> response option list \<times> store" where
  "serve s [] = ([], s)"
| "serve s ((w, rq) # rest) =
     (sent (app w s rq) # fst (serve (users (app w s rq)) rest),
      snd (serve (users (app w s rq)) rest))"

section \<open>Sample requests and environments\<close>

text \<open>Concrete inputs on which the results below are evaluated.\<close>

definition chat_request :: "string \<Rightarrow> json option \<Rightarrow> request" where
  "chat_request m v =
     \<lparr>req_method = m, route = R_chat, json_body = Inr (empty_body\<lparr>message := v\<rparr>)\<rparr>"

definition login_request :: "string \<Rightarrow> string \<Rightarrow> request" where
  "login_request x pw =
     \<lparr>req_method = ''POST'', route = R_login,
      json_body = Inr (empty_body\<lparr>usernameOrEmail := Some x, password := Some pw\<rparr>)\<rparr>"

definition signup_request :: "string \<Rightarrow> string \<Rightarrow> string \<Rightarrow> request" where
  "signup_request u e pw =
     \<lparr>req_method = ''POST'', route = R_signup,
      json_body = Inr (empty_body\<lparr>username := Some u, email := Some e, password := Some pw\<rparr>)\<rparr>"

definition health_request :: request where
  "health_request = \<lparr>req_method = ''GET'', route = R_health_ollama, json_body = Inr empty_body\<rparr>"

text \<open>A POST to the chat route whose body does not parse.\<close>

definition unparseable_chat_request :: request where
  "unparseable_chat_request = \<lparr>req_method = ''POST'', route = R_chat, json_body = Inl 400\<rparr>"

text \<open>
  A world whose listing and generation calls have the given outcomes, whatever is asked,
  with a toy hash in place of bcrypt.
\<close>

definition example_world :: "(js_error + axios_response) \<Rightarrow> (js_error + axios_response) \<Rightarrow> world" where
  "example_world listing generation =
     \<lparr>OLLAMA_URL = None,
      axios_get = (\<lambda>url limit. listing),
      axios_post = (\<lambda>url payload limit. generation),
      bcrypt_hash = (\<lambda>pw rounds. ''h:'' @ pw),
      bcrypt_compare = (\<lambda>pw h. h = ''h:'' @ pw),
      ObjectId = ''id-1'',
      store_fault = None,
      TypeError_message =
        (\<lambda>t. case t of
               ReadOfNull p \<Rightarrow> ''Cannot read properties of null (reading '' @ p @ '')''
             | NotAFunction f \<Rightarrow> f @ '' is not a function''),
      error_page = (\<lambda>code. ''Bad Request'')\<rparr>"

text \<open>What the runtime may answer to a generation request and to a listing request.\<close>

definition generated :: "string \<Rightarrow> js_error + axios_response" where
  "generated t = Inr \<lparr>http_status = 200, data = JObj [(''response'', JStr t)]\<rparr>"

definition listed :: "json \<Rightarrow> js_error + axios_response" where
  "listed v = Inr \<lparr>http_status = 200, data = v\<rparr>"

definition empty_reply_world :: world where
  "empty_reply_world = example_world (listed (JObj [(''models'', JArr [])])) (generated '''')"


definition null_entry_world :: world where
  "null_entry_world = example_world (listed (JObj [(''models'', JArr [JNull])])) (generated ''hello'')"

definition example_store :: store where
  "example_store =
     [\<lparr>doc_id = ''id-0'', doc_username = ''alice'', doc_email = ''alice@example.org'',
       doc_passwordHash = ''h:wonderland'', doc_phone = None\<rparr>]"

text \<open>The failures the HTTP client reports: refused connection, 404, DNS, timeout.\<close>

definition refused :: js_error where
  "refused = \<lparr>err_message = ''connect ECONNREFUSED 127.0.0.1:11434'',
              err_code = Some ''ECONNREFUSED'', err_response_status = None\<rparr>"

definition refused_v6 :: js_error where
  "refused_v6 = \<lparr>err_message = ''connect ECONNREFUSED ::1:11434'',
                 err_code = Some ''ECONNREFUSED'', err_response_status = None\<rparr>"

definition not_found_404 :: js_error where
  "not_found_404 = \<lparr>err_message = ''Request failed with status code 404'',
                    err_code = Some ''ERR_BAD_REQUEST'', err_response_status = Some 404\<rparr>"

definition dns_failure :: js_error where
  "dns_failure = \<lparr>err_message = ''getaddrinfo ENOTFOUND ollama'',
                  err_code = Some ''ENOTFOUND'', err_response_status = None\<rparr>"

definition timed_out :: js_error where
  "timed_out = \<lparr>err_message = ''timeout of 30000ms exceeded'',
                err_code = Some ''ECONNABORTED'', err_response_status = None\<rparr>"

section \<open>How the application reaches each handler\<close>

lemma example_world_simps:
  "OLLAMA_URL (example_world l g) = None"
  "axios_get (example_world l g) url limit = l"
  "axios_post (example_world l g) url payload ms = g"
  "bcrypt_hash (example_world l g) pw rounds = ''h:'' @ pw"
  "bcrypt_compare (example_world l g) pw h \<longleftrightarrow> h = ''h:'' @ pw"
  "ObjectId (example_world l g) = ''id-1''"
  "store_fault (example_world l g) = None"
  "TypeError_message (example_world l g) (ReadOfNull p) =
     ''Cannot read properties of null (reading '' @ p @ '')''"
  "TypeError_message (example_world l g) (NotAFunction f) = f @ '' is not a function''"
  "error_page (example_world l g) code = ''Bad Request''"
  "ollamaUrl (example_world l g) = ''http://localhost:11434''"
  by (simp_all add: example_world_def ollamaUrl_def)

lemma body_parsed:
  "body rq \<noteq> empty_body \<Longrightarrow> \<exists>b. json_body rq = Inr b"
  by (cases "json_body rq") (simp_all add: body_def)

lemma app_routes:
  "req_method rq \<noteq> ''OPTIONS'' \<Longrightarrow> body rq \<noteq> empty_body \<Longrightarrow> app w s rq = routes w s rq"
  by (cases "json_body rq") (simp_all add: app_def body_def)

lemma app_routes_parsed:
  "req_method rq \<noteq> ''OPTIONS'' \<Longrightarrow> json_body rq = Inr b \<Longrightarrow> app w s rq = routes w s rq"
  by (simp add: app_def)

lemma routes_signup:
  "req_method rq = ''POST'' \<Longrightarrow> route rq = R_signup \<Longrightarrow>
   routes w s rq = \<lparr>calls = [], sent = Some (fst (signup w s (body rq))),
                    users = snd (signup w s (body rq))\<rparr>"
  by (simp add: routes_def split: prod.splits)

lemma routes_login:
  "req_method rq = ''POST'' \<Longrightarrow> route rq = R_login \<Longrightarrow>
   routes w s rq = \<lparr>calls = [], sent = Some (login w s (body rq)), users = s\<rparr>"
  by (simp add: routes_def)

lemma routes_chat_post:
  "req_method rq = ''POST'' \<Longrightarrow> route rq = R_chat \<Longrightarrow>
   routes w s rq = \<lparr>calls = fst (chat_post w (body rq)),
                    sent = Some (snd (chat_post w (body rq))), users = s\<rparr>"
  by (simp add: routes_def split: prod.splits)

lemma routes_health:
  "req_method rq = ''GET'' \<Longrightarrow> route rq = R_health_ollama \<Longrightarrow>
   routes w s rq = \<lparr>calls = fst (health_ollama w), sent = Some (snd (health_ollama w)),
                    users = s\<rparr>"
  by (simp add: routes_def is_get_def split: prod.splits)

lemma app_chat_post:
  "req_method rq = ''POST'' \<Longrightarrow> route rq = R_chat \<Longrightarrow> message (body rq) = Some m \<Longrightarrow>
   app w s rq = \<lparr>calls = fst (chat_post w (body rq)),
                 sent = Some (snd (chat_post w (body rq))), users = s\<rparr>"
  by (subst app_routes) (auto simp add: routes_chat_post empty_body_def)

lemma serve_append:
  "serve s (xs @ ys) =
     (fst (serve s xs) @ fst (serve (snd (serve s xs)) ys), snd (serve (snd (serve s xs)) ys))"
  by (induction xs arbitrary: s) auto

section \<open>Chat relay: validation and verbs\<close>

text \<open>
  Claim C6. A POST to the chat route whose \<^verbatim>\<open>message\<close> is falsy, in particular absent or
  the empty string, is answered with status 400 and the text "No message provided.", and
  no request at all is sent to the runtime; the user collection is untouched. The same
  holds of a POST whose body \<^verbatim>\<open>express.json()\<close> refuses, except that the answer is then
  Express's own, with the status of the parse error (400 for a body that does not parse).
\<close>

theorem chat_missing_message:
  assumes "req_method rq = ''POST''" and "route rq = R_chat" and "\<not> truthy (message (body rq))"
  shows "(\<forall>b. json_body rq = Inr b \<longrightarrow>
            app w s rq =
              \<lparr>calls = [],
               sent = Some (res_json 400 (JObj [(''error'', JStr ''No message provided.'')])),
               users = s\<rparr>)
       \<and> (\<forall>code. json_body rq = Inl code \<longrightarrow>
            app w s rq =
              \<lparr>calls = [],
               sent = Some \<lparr>status = code, headers = [], content = Text (error_page w code)\<rparr>,
               users = s\<rparr>)
       \<and> calls (app w s rq) = [] \<and> users (app w s rq) = s"
proof -
  have no_call: "chat_post w (body rq) =
      ([], res_json 400 (JObj [(''error'', JStr ''No message provided.'')]))"
    using assms(3)
    by (cases "message (body rq)")
       (simp_all add: chat_post_def no_message_def List.map_filter_simps)
  show ?thesis
  proof (cases "json_body rq")
    case (Inl code)
    with assms show ?thesis by (simp add: app_def)
  next
    case (Inr b)
    with assms no_call show ?thesis
      by (simp add: app_routes_parsed routes_chat_post)
  qed
qed

text \<open>
  The same at a request without a message, at one whose message is the empty string, and
  at one whose body does not parse.
\<close>

theorem chat_missing_message_witness:
  "app (example_world (Inl refused) (Inl refused)) [] (chat_request ''POST'' None) =
     \<lparr>calls = [], sent = Some (res_json 400 (JObj [(''error'', JStr ''No message provided.'')])),
      users = []\<rparr>
   \<and> app (example_world (Inl refused) (Inl refused)) [] (chat_request ''POST'' (Some (JStr ''''))) =
     \<lparr>calls = [], sent = Some (res_json 400 (JObj [(''error'', JStr ''No message provided.'')])),
      users = []\<rparr>
   \<and> app (example_world (Inl refused) (Inl refused)) [] unparseable_chat_request =
     \<lparr>calls = [], sent = Some \<lparr>status = 400, headers = [], content = Text ''Bad Request''\<rparr>,
      users = []\<rparr>"
  using chat_missing_message [where rq = "chat_request ''POST'' None"
          and w = "example_world (Inl refused) (Inl refused)" and s = "[]"]
        chat_missing_message [where rq = "chat_request ''POST'' (Some (JStr ''''))"
          and w = "example_world (Inl refused) (Inl refused)" and s = "[]"]
        chat_missing_message [where rq = unparseable_chat_request
          and w = "example_world (Inl refused) (Inl refused)" and s = "[]"]
  by (simp add: chat_request_def unparseable_chat_request_def empty_body_def body_def
        example_world_simps)

lemma chat_other_verbs:
  assumes "route rq = R_chat" and "req_method rq \<noteq> ''POST''" and "req_method rq \<noteq> ''OPTIONS''"
    and "json_body rq = Inr b"
  shows "app w s rq =
           \<lparr>calls = [],
            sent = Some \<lparr>status = 405, headers = [(''Allow'', ''POST'')],
                         content = Json (JObj [(''error'', JStr
                           ''Method Not Allowed. Only POST is supported on this endpoint.'')])\<rparr>,
            users = s\<rparr>"
  using assms
  by (simp add: app_routes_parsed routes_def chat_all_def List.map_filter_simps)

text \<open>
  Claim C7 does not hold of the code. The source registers \<^verbatim>\<open>app.all('/chat', ...)\<close> under
  the comment "Return 405 for all non-POST methods on /chat", and that handler does so for
  every request that reaches it (\<open>chat_other_verbs\<close>); but \<^verbatim>\<open>cors()\<close> is mounted before the
  routes and answers an OPTIONS request itself: status 204, no \<^verbatim>\<open>Allow\<close> header, and not
  405.
\<close>

theorem chat_options_preflight:
  "app (example_world (Inl refused) (Inl refused)) [] (chat_request ''OPTIONS'' None) =
     \<lparr>calls = [], sent = Some \<lparr>status = 204, headers = [], content = Empty\<rparr>, users = []\<rparr>"
  by (simp add: app_def chat_request_def cors_preflight_def)

section \<open>Chat relay: what the runtime's answer becomes\<close>

lemma chat_post_rejected:
  "message b = Some m \<Longrightarrow> truthy (Some m) \<Longrightarrow>
   axios_post w (ollamaUrl w @ ''/api/generate'')
     \<lparr>model = ''llama3.2:1b-instruct-q4_K_M'', prompt = m, stream = False\<rparr> 30000 = Inl err \<Longrightarrow>
   chat_post w b =
     ([AxiosGet (ollamaUrl w @ ''/api/tags'') None,
       AxiosPost (ollamaUrl w @ ''/api/generate'')
         \<lparr>model = ''llama3.2:1b-instruct-q4_K_M'', prompt = m, stream = False\<rparr> 30000],
      chat_catch err)"
  by (simp add: chat_post_def Let_def)

lemma chat_post_resolved:
  "message b = Some m \<Longrightarrow> truthy (Some m) \<Longrightarrow>
   axios_post w (ollamaUrl w @ ''/api/generate'')
     \<lparr>model = ''llama3.2:1b-instruct-q4_K_M'', prompt = m, stream = False\<rparr> 30000 = Inr r \<Longrightarrow>
   chat_post w b =
     ([AxiosGet (ollamaUrl w @ ''/api/tags'') None,
       AxiosPost (ollamaUrl w @ ''/api/generate'')
         \<lparr>model = ''llama3.2:1b-instruct-q4_K_M'', prompt = m, stream = False\<rparr> 30000],
      if http_status r \<noteq> 200
      then res_json 500 (JObj [(''error'', JStr ''Ollama API error.'')])
      else if data r = JNull
      then chat_catch (TypeError w (ReadOfNull ''response''))
      else res_json 200 (JObj [(''reply'',
             or_else (read_prop (data r) ''response'') (JStr ''No response from AI model.''))]))"
  by (simp add: chat_post_def get_prop_def Let_def List.map_filter_simps)

lemma chat_rejected_response:
  assumes "req_method rq = ''POST''" and "route rq = R_chat"
    and "message (body rq) = Some m" and "truthy (Some m)"
    and "axios_post w (ollamaUrl w @ ''/api/generate'')
           \<lparr>model = ''llama3.2:1b-instruct-q4_K_M'', prompt = m, stream = False\<rparr> 30000 = Inl err"
  shows "sent (app w s rq) = Some (chat_catch err)" and "users (app w s rq) = s"
  using assms by (simp_all add: app_chat_post chat_post_rejected)

lemma chat_unasked_response:
  assumes "req_method rq = ''POST''" and "route rq = R_chat"
    and "message (body rq) = Some m" and "\<not> truthy (Some m)"
  shows "sent (app w s rq) = Some no_message" and "users (app w s rq) = s"
  using assms by (simp_all add: app_chat_post chat_post_def)

lemma chat_catch_status:
  "status (chat_catch err) =
     (if err_code err = Some ''ECONNREFUSED'' then 503
      else if err_response_status err = Some 404 then 404
      else if err_code err = Some ''ENOTFOUND'' then 503
      else 500)"
  by (simp add: chat_catch_def res_json_def)

lemma chat_catch_same_status:
  "err_code e1 = err_code e2 \<Longrightarrow> err_response_status e1 = err_response_status e2 \<Longrightarrow>
   status (chat_catch e1) = status (chat_catch e2)"
  by (simp add: chat_catch_status)

lemma chat_catch_same_error:
  "err_code e1 = err_code e2 \<Longrightarrow> err_response_status e1 = err_response_status e2 \<Longrightarrow>
   err_message e1 = err_message e2 \<Longrightarrow> chat_catch e1 = chat_catch e2"
  by (simp add: chat_catch_def)

lemma chat_catch_fixed_text:
  "err_code e1 = err_code e2 \<Longrightarrow> err_response_status e1 = err_response_status e2 \<Longrightarrow>
   status (chat_catch e1) \<noteq> 500 \<Longrightarrow> chat_catch e1 = chat_catch e2"
  by (auto simp add: chat_catch_def res_json_def split: if_splits)

text \<open>
  Claim C1, as stated, fails: when the generation call resolves with status 200 and the
  empty string as \<^verbatim>\<open>response\<close>, the reply sent is the placeholder text, not the empty
  string.
\<close>

theorem chat_empty_reply_counterexample:
  "axios_post empty_reply_world (ollamaUrl empty_reply_world @ ''/api/generate'')
      \<lparr>model = ''llama3.2:1b-instruct-q4_K_M'', prompt = JStr ''hi'', stream = False\<rparr> 30000
     = Inr \<lparr>http_status = 200, data = JObj [(''response'', JStr '''')]\<rparr>
   \<and> sent (app empty_reply_world [] (chat_request ''POST'' (Some (JStr ''hi''))))
     = Some (res_json 200 (JObj [(''reply'', JStr ''No response from AI model.'')]))
   \<and> sent (app empty_reply_world [] (chat_request ''POST'' (Some (JStr ''hi''))))
     \<noteq> Some (res_json 200 (JObj [(''reply'', JStr '''')]))"
  by (simp add: empty_reply_world_def example_world_simps generated_def chat_request_def
        empty_body_def body_def app_def routes_chat_post chat_post_resolved res_json_def)

text \<open>
  Claim C1, amended. For a POST to the chat route with a truthy message whose generation
  call resolves with status 200, the answer depends on the body of the runtime's reply.
  When the body is an object whose \<^verbatim>\<open>response\<close> is truthy, any non-empty string among
  them, that value is returned verbatim as the reply, with status 200. When the body is an
  object whose \<^verbatim>\<open>response\<close> is absent or falsy, the empty string among them, the reply is
  the placeholder "No response from AI model.", with status 200; so it is when the body is
  not an object and not \<^verbatim>\<open>null\<close>, since such a value has no \<^verbatim>\<open>response\<close>. When the body is
  \<^verbatim>\<open>null\<close>, reading \<^verbatim>\<open>response\<close> throws and the answer is status 500 with the error's
  message.
\<close>

theorem chat_success_reply:
  assumes "req_method rq = ''POST''" and "route rq = R_chat"
    and "message (body rq) = Some m" and "truthy (Some m)"
    and "axios_post w (ollamaUrl w @ ''/api/generate'')
           \<lparr>model = ''llama3.2:1b-instruct-q4_K_M'', prompt = m, stream = False\<rparr> 30000 = Inr r"
    and "http_status r = 200"
  shows "(\<forall>fields v. data r = JObj fields \<and> map_of fields ''response'' = Some v
              \<and> truthy (Some v) \<longrightarrow>
            sent (app w s rq) = Some (res_json 200 (JObj [(''reply'', v)])))
       \<and> (\<forall>fields. data r = JObj fields \<and> \<not> truthy (map_of fields ''response'') \<longrightarrow>
            sent (app w s rq) =
              Some (res_json 200 (JObj [(''reply'', JStr ''No response from AI model.'')])))
       \<and> (data r \<noteq> JNull \<and> (\<forall>fields. data r \<noteq> JObj fields) \<longrightarrow>
            sent (app w s rq) =
              Some (res_json 200 (JObj [(''reply'', JStr ''No response from AI model.'')])))
       \<and> (data r = JNull \<longrightarrow>
            sent (app w s rq) =
              Some (res_json 500 (JObj [(''error'',
                JStr (''Failed to get response from Ollama: ''
                        @ TypeError_message w (ReadOfNull ''response'')))])))"
proof (intro conjI allI impI)
  fix fields v
  assume "data r = JObj fields \<and> map_of fields ''response'' = Some v \<and> truthy (Some v)"
  with assms show "sent (app w s rq) = Some (res_json 200 (JObj [(''reply'', v)]))"
    by (simp add: app_chat_post chat_post_resolved)
next
  fix fields
  assume a: "data r = JObj fields \<and> \<not> truthy (map_of fields ''response'')"
  then have "or_else (read_prop (data r) ''response'') (JStr ''No response from AI model.'')
               = JStr ''No response from AI model.''"
    by (cases "map_of fields ''response''") simp_all
  with a assms show "sent (app w s rq) =
      Some (res_json 200 (JObj [(''reply'', JStr ''No response from AI model.'')]))"
    by (simp add: app_chat_post chat_post_resolved)
next
  assume a: "data r \<noteq> JNull \<and> (\<forall>fields. data r \<noteq> JObj fields)"
  then have "read_prop (data r) ''response'' = None"
    by (cases "data r") simp_all
  with a assms show "sent (app w s rq) =
      Some (res_json 200 (JObj [(''reply'', JStr ''No response from AI model.'')]))"
    by (simp add: app_chat_post chat_post_resolved)
next
  assume "data r = JNull"
  with assms show "sent (app w s rq) =
      Some (res_json 500 (JObj [(''error'',
        JStr (''Failed to get response from Ollama: ''
                @ TypeError_message w (ReadOfNull ''response'')))]))"
    by (simp add: app_chat_post chat_post_resolved chat_catch_def TypeError_def
          List.map_filter_simps)
qed

text \<open>
  A reply that is passed on, a body without the field, an empty reply, a body that is a
  string, and a body that is \<^verbatim>\<open>null\<close>.
\<close>

theorem chat_success_reply_witness:
  "sent (app (example_world (Inl refused) (generated ''hello'')) []
           (chat_request ''POST'' (Some (JStr ''hi''))))
     = Some (res_json 200 (JObj [(''reply'', JStr ''hello'')]))
   \<and> sent (app (example_world (Inl refused) (listed (JObj []))) []
           (chat_request ''POST'' (Some (JStr ''hi''))))
     = Some (res_json 200 (JObj [(''reply'', JStr ''No response from AI model.'')]))
   \<and> sent (app (example_world (Inl refused) (generated '''')) []
           (chat_request ''POST'' (Some (JStr ''hi''))))
     = Some (res_json 200 (JObj [(''reply'', JStr ''No response from AI model.'')]))
   \<and> sent (app (example_world (Inl refused) (listed (JStr ''pong''))) []
           (chat_request ''POST'' (Some (JStr ''hi''))))
     = Some (res_json 200 (JObj [(''reply'', JStr ''No response from AI model.'')]))
   \<and> sent (app (example_world (Inl refused) (listed JNull)) []
           (chat_request ''POST'' (Some (JStr ''hi''))))
     = Some (res_json 500 (JObj [(''error'', JStr
         ''Failed to get response from Ollama: Cannot read properties of null (reading response)'')]))"
  using chat_success_reply [where rq = "chat_request ''POST'' (Some (JStr ''hi''))"
          and m = "JStr ''hi''" and s = "[]"
          and w = "example_world (Inl refused) (generated ''hello'')"
          and r = "\<lparr>http_status = 200, data = JObj [(''response'', JStr ''hello'')]\<rparr>"]
        chat_success_reply [where rq = "chat_request ''POST'' (Some (JStr ''hi''))"
          and m = "JStr ''hi''" and s = "[]"
          and w = "example_world (Inl refused) (listed (JObj []))"
          and r = "\<lparr>http_status = 200, data = JObj []\<rparr>"]
        chat_success_reply [where rq = "chat_request ''POST'' (Some (JStr ''hi''))"
          and m = "JStr ''hi''" and s = "[]"
          and w = "example_world (Inl refused) (generated '''')"
          and r = "\<lparr>http_status = 200, data = JObj [(''response'', JStr '''')]\<rparr>"]
        chat_success_reply [where rq = "chat_request ''POST'' (Some (JStr ''hi''))"
          and m = "JStr ''hi''" and s = "[]"
          and w = "example_world (Inl refused) (listed (JStr ''pong''))"
          and r = "\<lparr>http_status = 200, data = JStr ''pong''\<rparr>"]
        chat_success_reply [where rq = "chat_request ''POST'' (Some (JStr ''hi''))"
          and m = "JStr ''hi''" and s = "[]"
          and w = "example_world (Inl refused) (listed JNull)"
          and r = "\<lparr>http_status = 200, data = JNull\<rparr>"]
  by (simp add: chat_request_def empty_body_def body_def example_world_simps generated_def
        listed_def)

text \<open>
  Claim C4. When the generation call of a chat request rejects, the response is decided
  by the cause alone: a refused connection gives 503; a 404 answer of the runtime gives
  404; a host that cannot be resolved gives 503; every other failure, a timeout among
  them, gives 500 with the failure's message at the end of the error text.
\<close>

theorem chat_failure_mapping:
  assumes "req_method rq = ''POST''" and "route rq = R_chat"
    and "message (body rq) = Some m" and "truthy (Some m)"
    and "axios_post w (ollamaUrl w @ ''/api/generate'')
           \<lparr>model = ''llama3.2:1b-instruct-q4_K_M'', prompt = m, stream = False\<rparr> 30000 = Inl err"
  shows "\<exists>r. sent (app w s rq) = Some r
           \<and> (err_code err = Some ''ECONNREFUSED'' \<longrightarrow> status r = 503)
           \<and> (err_code err \<noteq> Some ''ECONNREFUSED'' \<and> err_response_status err = Some 404
                \<longrightarrow> status r = 404)
           \<and> (err_code err = Some ''ENOTFOUND'' \<and> err_response_status err \<noteq> Some 404
                \<longrightarrow> status r = 503)
           \<and> (err_code err \<noteq> Some ''ECONNREFUSED'' \<and> err_code err \<noteq> Some ''ENOTFOUND''
                \<and> err_response_status err \<noteq> Some 404
                \<longrightarrow> status r = 500
                  \<and> content r = Json (JObj [(''error'',
                        JStr (''Failed to get response from Ollama: '' @ err_message err))]))"
  using assms
  by (simp add: app_chat_post chat_post_rejected chat_catch_def res_json_def
        List.map_filter_simps)

text \<open>One request for each cause.\<close>

theorem chat_failure_mapping_witness:
  "(\<exists>r. sent (app (example_world (Inl refused) (Inl refused)) []
              (chat_request ''POST'' (Some (JStr ''hi'')))) = Some r \<and> status r = 503)
   \<and> (\<exists>r. sent (app (example_world (Inl refused) (Inl not_found_404)) []
              (chat_request ''POST'' (Some (JStr ''hi'')))) = Some r \<and> status r = 404)
   \<and> (\<exists>r. sent (app (example_world (Inl refused) (Inl dns_failure)) []
              (chat_request ''POST'' (Some (JStr ''hi'')))) = Some r \<and> status r = 503)
   \<and> (\<exists>r. sent (app (example_world (Inl refused) (Inl timed_out)) []
              (chat_request ''POST'' (Some (JStr ''hi'')))) = Some r \<and> status r = 500
          \<and> content r = Json (JObj [(''error'',
                JStr ''Failed to get response from Ollama: timeout of 30000ms exceeded'')]))"
  using chat_failure_mapping [where rq = "chat_request ''POST'' (Some (JStr ''hi''))"
          and m = "JStr ''hi''" and s = "[]" and err = refused
          and w = "example_world (Inl refused) (Inl refused)"]
        chat_failure_mapping [where rq = "chat_request ''POST'' (Some (JStr ''hi''))"
          and m = "JStr ''hi''" and s = "[]" and err = not_found_404
          and w = "example_world (Inl refused) (Inl not_found_404)"]
        chat_failure_mapping [where rq = "chat_request ''POST'' (Some (JStr ''hi''))"
          and m = "JStr ''hi''" and s = "[]" and err = dns_failure
          and w = "example_world (Inl refused) (Inl dns_failure)"]
        chat_failure_mapping [where rq = "chat_request ''POST'' (Some (JStr ''hi''))"
          and m = "JStr ''hi''" and s = "[]" and err = timed_out
          and w = "example_world (Inl refused) (Inl timed_out)"]
  by (simp add: chat_request_def empty_body_def body_def example_world_simps refused_def
        not_found_404_def dns_failure_def timed_out_def)

text \<open>
  Claim C8. Let the same chat request, with any message, be handled twice, with any other
  requests handled in between, in worlds that may differ in everything except the cause
  for which the generation call for that message rejects: the same \<^verbatim>\<open>code\<close> and the same
  status of the runtime's answer, if it gave one; the messages of the two failures may
  differ. Both times the status is the same, whatever was handled before and whatever the
  user collection holds, and when the message is truthy, so that the runtime is asked at
  all, it is the status the cause determines: 503 for a refused connection, else 404 for
  a 404 answer, else 503 for a host not found, else 500. The whole response is the same
  both times unless the status is 500, where the text ends with each failure's own
  message; it is the same there too when the messages agree.
\<close>

theorem chat_failure_repeatable:
  assumes "req_method rq = ''POST''" and "route rq = R_chat"
    and "message (body rq) = Some m"
    and "axios_post w1 (ollamaUrl w1 @ ''/api/generate'')
           \<lparr>model = ''llama3.2:1b-instruct-q4_K_M'', prompt = m, stream = False\<rparr> 30000 = Inl e1"
    and "axios_post w2 (ollamaUrl w2 @ ''/api/generate'')
           \<lparr>model = ''llama3.2:1b-instruct-q4_K_M'', prompt = m, stream = False\<rparr> 30000 = Inl e2"
    and "err_code e1 = err_code e2"
    and "err_response_status e1 = err_response_status e2"
  shows "\<exists>r1 r2. fst (serve s ((w1, rq) # between @ [(w2, rq)])) =
                   Some r1 # fst (serve s between) @ [Some r2]
           \<and> status r1 = status r2
           \<and> (status r1 \<noteq> 500 \<longrightarrow> r1 = r2)
           \<and> (err_message e1 = err_message e2 \<longrightarrow> r1 = r2)
           \<and> (truthy (Some m) \<longrightarrow>
                 r1 = chat_catch e1 \<and> r2 = chat_catch e2
                 \<and> status r1 =
                     (if err_code e1 = Some ''ECONNREFUSED'' then 503
                      else if err_response_status e1 = Some 404 then 404
                      else if err_code e1 = Some ''ENOTFOUND'' then 503
                      else 500))"
proof (cases "truthy (Some m)")
  case True
  with assms have first: "sent (app w1 s rq) = Some (chat_catch e1)" "users (app w1 s rq) = s"
    and last: "\<And>t. sent (app w2 t rq) = Some (chat_catch e2)"
    by (simp_all add: chat_rejected_response)
  have in_turn: "fst (serve s ((w1, rq) # between @ [(w2, rq)])) =
      Some (chat_catch e1) # fst (serve s between) @ [Some (chat_catch e2)]"
    using first last by (simp add: serve_append)
  have same_status: "status (chat_catch e1) = status (chat_catch e2)"
    using assms(6,7) by (rule chat_catch_same_status)
  have fixed: "status (chat_catch e1) \<noteq> 500 \<longrightarrow> chat_catch e1 = chat_catch e2"
    using assms(6,7) chat_catch_fixed_text [of e1 e2] by blast
  have same_message: "err_message e1 = err_message e2 \<longrightarrow> chat_catch e1 = chat_catch e2"
    using assms(6,7) chat_catch_same_error [of e1 e2] by blast
  have by_cause: "status (chat_catch e1) =
      (if err_code e1 = Some ''ECONNREFUSED'' then 503
       else if err_response_status e1 = Some 404 then 404
       else if err_code e1 = Some ''ENOTFOUND'' then 503
       else 500)"
    by (rule chat_catch_status)
  from in_turn same_status fixed same_message by_cause show ?thesis
    by blast
next
  case False
  with assms have first: "sent (app w1 s rq) = Some no_message" "users (app w1 s rq) = s"
    and last: "\<And>t. sent (app w2 t rq) = Some no_message"
    by (simp_all add: chat_unasked_response)
  have in_turn: "fst (serve s ((w1, rq) # between @ [(w2, rq)])) =
      Some no_message # fst (serve s between) @ [Some no_message]"
    using first last by (simp add: serve_append)
  from in_turn False show ?thesis
    by blast
qed

text \<open>
  Two chat requests against a runtime that refuses the connection, once over IPv4 and
  once over IPv6 so that the messages differ, with a signup handled in between and the
  model listing failing only the first time: the same 503 both times. And two against a
  runtime that times out, with different messages: 500 both times, each with its own
  message.
\<close>

theorem chat_failure_repeatable_witness:
  "fst (serve []
     [(example_world (Inl refused) (Inl refused), chat_request ''POST'' (Some (JStr ''hi''))),
      (example_world (Inl refused) (Inl refused),
       signup_request ''bob'' ''bob@example.org'' ''builder''),
      (example_world (listed (JObj [])) (Inl refused_v6),
       chat_request ''POST'' (Some (JStr ''hi'')))])
     = [Some (res_json 503 (JObj [(''error'', JStr
               ''Cannot connect to Ollama service. Please ensure Ollama is running.'')])),
        Some (res_json 201 (JObj [(''message'', JStr ''User created''),
                                  (''userId'', JStr ''id-1'')])),
        Some (res_json 503 (JObj [(''error'', JStr
               ''Cannot connect to Ollama service. Please ensure Ollama is running.'')]))]
   \<and> fst (serve []
     [(example_world (Inl refused) (Inl timed_out), chat_request ''POST'' (Some (JStr ''hi''))),
      (example_world (Inl refused) (Inl (timed_out\<lparr>err_message := ''timeout of 30000ms exceeded (2)''\<rparr>)),
       chat_request ''POST'' (Some (JStr ''hi'')))])
     = [Some (res_json 500 (JObj [(''error'', JStr
               ''Failed to get response from Ollama: timeout of 30000ms exceeded'')])),
        Some (res_json 500 (JObj [(''error'', JStr
               ''Failed to get response from Ollama: timeout of 30000ms exceeded (2)'')]))]"
proof -
  have a: "\<exists>r1 r2. fst (serve []
     ((example_world (Inl refused) (Inl refused), chat_request ''POST'' (Some (JStr ''hi'')))
      # [(example_world (Inl refused) (Inl refused),
          signup_request ''bob'' ''bob@example.org'' ''builder'')]
      @ [(example_world (listed (JObj [])) (Inl refused_v6),
          chat_request ''POST'' (Some (JStr ''hi'')))])) =
        Some r1 # fst (serve [] [(example_world (Inl refused) (Inl refused),
                                  signup_request ''bob'' ''bob@example.org'' ''builder'')])
          @ [Some r2]
      \<and> status r1 = status r2 \<and> (status r1 \<noteq> 500 \<longrightarrow> r1 = r2)
      \<and> (err_message refused = err_message refused_v6 \<longrightarrow> r1 = r2)
      \<and> (truthy (Some (JStr ''hi'')) \<longrightarrow>
            r1 = chat_catch refused \<and> r2 = chat_catch refused_v6
            \<and> status r1 =
                (if err_code refused = Some ''ECONNREFUSED'' then 503
                 else if err_response_status refused = Some 404 then 404
                 else if err_code refused = Some ''ENOTFOUND'' then 503
                 else 500))"
    by (rule chat_failure_repeatable)
       (simp_all add: chat_request_def empty_body_def body_def example_world_simps
          refused_def refused_v6_def)
  have b: "\<exists>r1 r2. fst (serve []
     ((example_world (Inl refused) (Inl timed_out), chat_request ''POST'' (Some (JStr ''hi'')))
      # [] @ [(example_world (Inl refused)
                 (Inl (timed_out\<lparr>err_message := ''timeout of 30000ms exceeded (2)''\<rparr>)),
               chat_request ''POST'' (Some (JStr ''hi'')))])) =
        Some r1 # fst (serve [] []) @ [Some r2]
      \<and> status r1 = status r2 \<and> (status r1 \<noteq> 500 \<longrightarrow> r1 = r2)
      \<and> (err_message timed_out
            = err_message (timed_out\<lparr>err_message := ''timeout of 30000ms exceeded (2)''\<rparr>)
          \<longrightarrow> r1 = r2)
      \<and> (truthy (Some (JStr ''hi'')) \<longrightarrow>
            r1 = chat_catch timed_out
            \<and> r2 = chat_catch (timed_out\<lparr>err_message := ''timeout of 30000ms exceeded (2)''\<rparr>)
            \<and> status r1 =
                (if err_code timed_out = Some ''ECONNREFUSED'' then 503
                 else if err_response_status timed_out = Some 404 then 404
                 else if err_code timed_out = Some ''ENOTFOUND'' then 503
                 else 500))"
    by (rule chat_failure_repeatable)
       (simp_all add: chat_request_def empty_body_def body_def example_world_simps timed_out_def)
  have evaluated: ?thesis
    by (simp add: chat_catch_def res_json_def refused_def refused_v6_def timed_out_def
          List.map_filter_simps signup_request_def chat_request_def empty_body_def body_def
          app_def routes_signup routes_chat_post chat_post_rejected signup_def User_create_def
          example_world_simps Let_def)
  from a b evaluated show ?thesis
    by blast
qed

lemma listing_replaced:
  "ollamaUrl (w\<lparr>axios_get := listing\<rparr>) = ollamaUrl w"
  "get_prop (w\<lparr>axios_get := listing\<rparr>) v p = get_prop w v p"
  by (simp_all add: ollamaUrl_def get_prop_def TypeError_def)

text \<open>
  Claim C10. Replacing the behaviour of the model-listing call by any other leaves the
  whole outcome of a chat request unchanged: the same requests are sent to the runtime
  and the same response is returned. The listing is always asked for first, and when the
  message is truthy the generation request follows, whether the listing resolved or
  rejected.
\<close>

theorem chat_precheck_ignored:
  assumes "req_method rq = ''POST''" and "route rq = R_chat"
  shows "app (w\<lparr>axios_get := listing\<rparr>) s rq = app w s rq
       \<and> (truthy (message (body rq)) \<longrightarrow>
            (\<exists>url payload limit. calls (app (w\<lparr>axios_get := listing\<rparr>) s rq) =
               [AxiosGet (ollamaUrl w @ ''/api/tags'') None, AxiosPost url payload limit]))"
proof -
  have same: "chat_post (w\<lparr>axios_get := listing\<rparr>) (body rq) = chat_post w (body rq)"
    by (simp add: chat_post_def listing_replaced Let_def split: option.splits sum.splits)
  have first: "app (w\<lparr>axios_get := listing\<rparr>) s rq = app w s rq"
    using assms same by (cases "json_body rq") (simp_all add: app_def routes_chat_post)
  have second: "\<exists>url payload limit. calls (app w s rq) =
      [AxiosGet (ollamaUrl w @ ''/api/tags'') None, AxiosPost url payload limit]"
    if "truthy (message (body rq))"
  proof (cases "message (body rq)")
    case None
    with that show ?thesis by simp
  next
    case (Some m)
    with that assms show ?thesis
      by (simp add: app_chat_post chat_post_def Let_def)
  qed
  from first second show ?thesis by simp
qed

text \<open>A listing that rejects against one that resolves, with the same generation.\<close>

theorem chat_precheck_ignored_witness:
  "app ((example_world (Inl refused) (generated ''hello''))
          \<lparr>axios_get := (\<lambda>url limit. listed (JObj [(''models'', JArr [])]))\<rparr>) []
       (chat_request ''POST'' (Some (JStr ''hi'')))
   = app (example_world (Inl refused) (generated ''hello'')) []
       (chat_request ''POST'' (Some (JStr ''hi'')))
   \<and> sent (app (example_world (Inl refused) (generated ''hello'')) []
       (chat_request ''POST'' (Some (JStr ''hi''))))
     = Some (res_json 200 (JObj [(''reply'', JStr ''hello'')]))"
  using chat_precheck_ignored [where rq = "chat_request ''POST'' (Some (JStr ''hi''))"
          and w = "example_world (Inl refused) (generated ''hello'')"
          and listing = "\<lambda>url limit. listed (JObj [(''models'', JArr [])])" and s = "[]"]
  by (simp add: chat_request_def empty_body_def body_def example_world_simps generated_def
        app_def routes_chat_post chat_post_resolved)

section \<open>Accounts\<close>

lemma User_findOne_Some:
  "User_findOne s x = Some doc \<Longrightarrow> doc \<in> set s \<and> (doc_username doc = x \<or> doc_email doc = x)"
  by (auto simp add: User_findOne_def find_Some_iff)

lemma User_findOne_None:
  "User_findOne s x = None \<longleftrightarrow> (\<forall>d \<in> set s. doc_username d \<noteq> x \<and> doc_email d \<noteq> x)"
  by (auto simp add: User_findOne_def find_None_iff)

lemma app_login:
  "req_method rq = ''POST'' \<Longrightarrow> route rq = R_login \<Longrightarrow>
   usernameOrEmail (body rq) = Some x \<Longrightarrow>
   app w s rq = \<lparr>calls = [], sent = Some (login w s (body rq)), users = s\<rparr>"
  by (subst app_routes) (auto simp add: routes_login empty_body_def)

lemma app_signup:
  "req_method rq = ''POST'' \<Longrightarrow> route rq = R_signup \<Longrightarrow>
   username (body rq) = Some u \<Longrightarrow>
   app w s rq = \<lparr>calls = [], sent = Some (fst (signup w s (body rq))),
                 users = snd (signup w s (body rq))\<rparr>"
  by (subst app_routes) (auto simp add: routes_signup empty_body_def)

text \<open>
  Claim C2. For a login whose \<^verbatim>\<open>usernameOrEmail\<close> and \<^verbatim>\<open>password\<close> are non-empty, the
  document looked up is one of the collection whose \<^verbatim>\<open>username\<close> or \<^verbatim>\<open>email\<close> is the
  given name, and there is none exactly when no document has that name. When one is found
  and the password verifies against its hash, the response has status 200 and carries the
  message, the identifier, \<^verbatim>\<open>username\<close>, \<^verbatim>\<open>email\<close> and, when the document has one, \<^verbatim>\<open>phone\<close>:
  these properties and no other, so never the hash. When none is found, or the password
  does not verify, the response is the same in both cases: status 401 with the text
  "Invalid credentials". The collection is left as it was.
\<close>

theorem login_outcomes:
  assumes "req_method rq = ''POST''" and "route rq = R_login"
    and "usernameOrEmail (body rq) = Some x" and "x \<noteq> []"
    and "password (body rq) = Some pw" and "pw \<noteq> []"
  shows "(\<forall>doc. User_findOne s x = Some doc \<and> bcrypt_compare w pw (doc_passwordHash doc) \<longrightarrow>
            doc \<in> set s \<and> (doc_username doc = x \<or> doc_email doc = x) \<and>
            app w s rq =
              \<lparr>calls = [],
               sent = Some (res_json 200 (JObj
                 ([(''message'', JStr ''Login successful''),
                   (''userId'', JStr (doc_id doc)),
                   (''username'', JStr (doc_username doc)),
                   (''email'', JStr (doc_email doc))]
                  @ (case doc_phone doc of None \<Rightarrow> [] | Some p \<Rightarrow> [(''phone'', JStr p)])))),
               users = s\<rparr>)
       \<and> (User_findOne s x = None
            \<or> (\<exists>doc. User_findOne s x = Some doc \<and> \<not> bcrypt_compare w pw (doc_passwordHash doc))
          \<longrightarrow> app w s rq =
              \<lparr>calls = [],
               sent = Some (res_json 401 (JObj [(''error'', JStr ''Invalid credentials'')])),
               users = s\<rparr>)
       \<and> (User_findOne s x = None \<longleftrightarrow> (\<forall>d \<in> set s. doc_username d \<noteq> x \<and> doc_email d \<noteq> x))"
proof (intro conjI allI impI)
  fix doc
  assume found: "User_findOne s x = Some doc \<and> bcrypt_compare w pw (doc_passwordHash doc)"
  then show "doc \<in> set s" and "doc_username doc = x \<or> doc_email doc = x"
    using User_findOne_Some [of s x doc] by simp_all
  from found assms show "app w s rq =
      \<lparr>calls = [],
       sent = Some (res_json 200 (JObj
         ([(''message'', JStr ''Login successful''),
           (''userId'', JStr (doc_id doc)),
           (''username'', JStr (doc_username doc)),
           (''email'', JStr (doc_email doc))]
          @ (case doc_phone doc of None \<Rightarrow> [] | Some p \<Rightarrow> [(''phone'', JStr p)])))),
       users = s\<rparr>"
    by (simp add: app_login login_def List.map_filter_simps split: option.splits)
next
  assume "User_findOne s x = None
            \<or> (\<exists>doc. User_findOne s x = Some doc \<and> \<not> bcrypt_compare w pw (doc_passwordHash doc))"
  with assms show "app w s rq =
      \<lparr>calls = [],
       sent = Some (res_json 401 (JObj [(''error'', JStr ''Invalid credentials'')])),
       users = s\<rparr>"
    by (auto simp add: app_login login_def invalid_credentials_def List.map_filter_simps)
next
  show "User_findOne s x = None \<longleftrightarrow> (\<forall>d \<in> set s. doc_username d \<noteq> x \<and> doc_email d \<noteq> x)"
    by (rule User_findOne_None)
qed

text \<open>A login by e-mail address, a wrong password, an unknown name.\<close>

theorem login_outcomes_witness:
  "sent (app (example_world (Inl refused) (Inl refused)) example_store
           (login_request ''alice@example.org'' ''wonderland''))
     = Some (res_json 200 (JObj [(''message'', JStr ''Login successful''),
                                 (''userId'', JStr ''id-0''),
                                 (''username'', JStr ''alice''),
                                 (''email'', JStr ''alice@example.org'')]))
   \<and> sent (app (example_world (Inl refused) (Inl refused)) example_store
           (login_request ''alice'' ''looking-glass''))
     = Some (res_json 401 (JObj [(''error'', JStr ''Invalid credentials'')]))
   \<and> sent (app (example_world (Inl refused) (Inl refused)) example_store
           (login_request ''bob'' ''wonderland''))
     = Some (res_json 401 (JObj [(''error'', JStr ''Invalid credentials'')]))"
  using login_outcomes [where rq = "login_request ''alice@example.org'' ''wonderland''"
          and x = "''alice@example.org''" and pw = "''wonderland''"
          and w = "example_world (Inl refused) (Inl refused)" and s = example_store]
        login_outcomes [where rq = "login_request ''alice'' ''looking-glass''"
          and x = "''alice''" and pw = "''looking-glass''"
          and w = "example_world (Inl refused) (Inl refused)" and s = example_store]
        login_outcomes [where rq = "login_request ''bob'' ''wonderland''"
          and x = "''bob''" and pw = "''wonderland''"
          and w = "example_world (Inl refused) (Inl refused)" and s = example_store]
  by (simp add: login_request_def empty_body_def body_def example_world_simps
        example_store_def User_findOne_def)

text \<open>
  Claim C3. For a signup whose \<^verbatim>\<open>username\<close>, \<^verbatim>\<open>email\<close> and \<^verbatim>\<open>password\<close> are non-empty: when
  the \<^verbatim>\<open>username\<close> or the \<^verbatim>\<open>email\<close> is already taken, or the store refuses the document
  for any other reason, the response is status 400 with the one text "User already exists
  or invalid data", whatever the reason, and the collection is unchanged; otherwise the
  response is status 201 with the message and the new document's identifier, and nothing
  else (neither the password nor its hash), and the collection has grown by exactly that
  document.
\<close>

theorem signup_outcomes:
  assumes "req_method rq = ''POST''" and "route rq = R_signup"
    and "username (body rq) = Some u" and "u \<noteq> []"
    and "email (body rq) = Some e" and "e \<noteq> []"
    and "password (body rq) = Some pw" and "pw \<noteq> []"
  shows "((\<exists>d \<in> set s. doc_username d = u \<or> doc_email d = e)
          \<or> (\<exists>d \<in> set s. doc_id d = ObjectId w)
          \<or> store_fault w \<noteq> None
          \<or> bcrypt_hash w pw 10 = []
          \<longrightarrow> app w s rq =
                \<lparr>calls = [],
                 sent = Some (res_json 400
                          (JObj [(''error'', JStr ''User already exists or invalid data'')])),
                 users = s\<rparr>)
       \<and> (\<not> ((\<exists>d \<in> set s. doc_username d = u \<or> doc_email d = e)
              \<or> (\<exists>d \<in> set s. doc_id d = ObjectId w)
              \<or> store_fault w \<noteq> None
              \<or> bcrypt_hash w pw 10 = [])
          \<longrightarrow> app w s rq =
                \<lparr>calls = [],
                 sent = Some (res_json 201
                          (JObj [(''message'', JStr ''User created''),
                                 (''userId'', JStr (ObjectId w))])),
                 users = s @ [\<lparr>doc_id = ObjectId w, doc_username = u, doc_email = e,
                                doc_passwordHash = bcrypt_hash w pw 10,
                                doc_phone = phone (body rq)\<rparr>]\<rparr>)"
  using assms
  by (auto simp add: app_signup signup_def User_create_def list_ex_iff Let_def
        List.map_filter_simps split: option.splits)

text \<open>A new account, a taken user name, a taken e-mail address.\<close>

theorem signup_outcomes_witness:
  "app (example_world (Inl refused) (Inl refused)) example_store
       (signup_request ''bob'' ''bob@example.org'' ''builder'')
     = \<lparr>calls = [],
        sent = Some (res_json 201 (JObj [(''message'', JStr ''User created''),
                                         (''userId'', JStr ''id-1'')])),
        users = example_store @
                  [\<lparr>doc_id = ''id-1'', doc_username = ''bob'', doc_email = ''bob@example.org'',
                    doc_passwordHash = ''h:builder'', doc_phone = None\<rparr>]\<rparr>
   \<and> app (example_world (Inl refused) (Inl refused)) example_store
       (signup_request ''alice'' ''other@example.org'' ''builder'')
     = \<lparr>calls = [],
        sent = Some (res_json 400
                 (JObj [(''error'', JStr ''User already exists or invalid data'')])),
        users = example_store\<rparr>
   \<and> app (example_world (Inl refused) (Inl refused)) example_store
       (signup_request ''carol'' ''alice@example.org'' ''builder'')
     = \<lparr>calls = [],
        sent = Some (res_json 400
                 (JObj [(''error'', JStr ''User already exists or invalid data'')])),
        users = example_store\<rparr>"
  using signup_outcomes [where rq = "signup_request ''bob'' ''bob@example.org'' ''builder''"
          and u = "''bob''" and e = "''bob@example.org''" and pw = "''builder''"
          and w = "example_world (Inl refused) (Inl refused)" and s = example_store]
        signup_outcomes [where rq = "signup_request ''alice'' ''other@example.org'' ''builder''"
          and u = "''alice''" and e = "''other@example.org''" and pw = "''builder''"
          and w = "example_world (Inl refused) (Inl refused)" and s = example_store]
        signup_outcomes [where rq = "signup_request ''carol'' ''alice@example.org'' ''builder''"
          and u = "''carol''" and e = "''alice@example.org''" and pw = "''builder''"
          and w = "example_world (Inl refused) (Inl refused)" and s = example_store]
  by (simp add: signup_request_def empty_body_def body_def example_world_simps
        example_store_def)

section \<open>Health of the runtime\<close>

lemma models_some_names:
  "JNull \<notin> set xs \<Longrightarrow>
   models_some w xs =
     Inr (Some (JStr ''llama3.2:1b-instruct-q4_K_M'') \<in> set (map (\<lambda>m. read_prop m ''name'') xs))"
  by (induction xs) (auto simp add: get_prop_def)

lemma models_map_names:
  "JNull \<notin> set xs \<Longrightarrow>
   models_map w xs = Inr (map (\<lambda>m. or_else (read_prop m ''name'') JNull) xs)"
  by (induction xs) (auto simp add: get_prop_def)

lemma models_some_throws:
  "models_some w xs = Inl e \<Longrightarrow> e = TypeError w (ReadOfNull ''name'')"
  by (induction xs) (auto simp add: get_prop_def split: if_splits)

lemma models_map_throws:
  "JNull \<in> set xs \<Longrightarrow> models_map w xs = Inl (TypeError w (ReadOfNull ''name''))"
proof (induction xs)
  case Nil
  then show ?case by simp
next
  case (Cons m rest)
  show ?case
  proof (cases "m = JNull")
    case True
    then show ?thesis by (simp add: get_prop_def)
  next
    case False
    with Cons show ?thesis by (simp add: get_prop_def)
  qed
qed

lemma health_try_null_body:
  "data r = JNull \<Longrightarrow> health_try w url r = Inl (TypeError w (ReadOfNull ''models''))"
  by (simp add: health_try_def get_prop_def)

lemma health_try_no_models:
  "data r \<noteq> JNull \<Longrightarrow> \<not> truthy (read_prop (data r) ''models'') \<Longrightarrow>
   health_try w url r =
     Inr (res_json 200 (JObj
       [(''status'', JStr ''healthy''),
        (''ollama_url'', JStr url),
        (''models_available'', JNum 0),
        (''required_model_available'', JBool False),
        (''models'', JArr [])]))"
  by (cases "read_prop (data r) ''models''")
     (simp_all add: health_try_def get_prop_def List.map_filter_simps)

lemma health_try_listing:
  "read_prop (data r) ''models'' = Some (JArr xs) \<Longrightarrow> JNull \<notin> set xs \<Longrightarrow>
   health_try w url r =
     Inr (res_json 200 (JObj
       [(''status'', JStr ''healthy''),
        (''ollama_url'', JStr url),
        (''models_available'', JNum (int (length xs))),
        (''required_model_available'',
           JBool (Some (JStr ''llama3.2:1b-instruct-q4_K_M'')
                    \<in> set (map (\<lambda>m. read_prop m ''name'') xs))),
        (''models'', JArr (map (\<lambda>m. or_else (read_prop m ''name'') JNull) xs))]))"
proof -
  assume models: "read_prop (data r) ''models'' = Some (JArr xs)" and entries: "JNull \<notin> set xs"
  from models have "data r \<noteq> JNull" by auto
  with models entries show ?thesis
    by (simp add: health_try_def get_prop_def models_some_names models_map_names
          List.map_filter_simps)
qed

lemma health_try_null_entry:
  "read_prop (data r) ''models'' = Some (JArr xs) \<Longrightarrow> JNull \<in> set xs \<Longrightarrow>
   health_try w url r = Inl (TypeError w (ReadOfNull ''name''))"
proof -
  assume models: "read_prop (data r) ''models'' = Some (JArr xs)" and entry: "JNull \<in> set xs"
  from models have "data r \<noteq> JNull" by auto
  with models entry show ?thesis
    by (cases "models_some w xs")
       (simp_all add: health_try_def get_prop_def models_map_throws models_some_throws)
qed

lemma health_try_not_array:
  "truthy (read_prop (data r) ''models'') \<Longrightarrow>
   \<forall>xs. read_prop (data r) ''models'' \<noteq> Some (JArr xs) \<Longrightarrow>
   health_try w url r = Inl (TypeError w (NotAFunction ''models.some''))"
proof -
  assume t: "truthy (read_prop (data r) ''models'')"
    and n: "\<forall>xs. read_prop (data r) ''models'' \<noteq> Some (JArr xs)"
  from t obtain v where v: "read_prop (data r) ''models'' = Some v"
    by (cases "read_prop (data r) ''models''") simp_all
  from v have "data r \<noteq> JNull" by auto
  with t n v show ?thesis
    by (cases v) (simp_all add: health_try_def get_prop_def)
qed

lemma app_health:
  "req_method rq = ''GET'' \<Longrightarrow> route rq = R_health_ollama \<Longrightarrow> json_body rq = Inr b \<Longrightarrow>
   app w s rq = \<lparr>calls = [AxiosGet (ollamaUrl w @ ''/api/tags'') (Some 5000)],
                 sent = Some (case axios_get w (ollamaUrl w @ ''/api/tags'') (Some 5000) of
                                Inl error \<Rightarrow> health_catch w error
                              | Inr r \<Rightarrow>
                                  (case health_try w (ollamaUrl w) r of
                                     Inl error \<Rightarrow> health_catch w error
                                   | Inr res \<Rightarrow> res)),
                 users = s\<rparr>"
  by (simp add: app_routes_parsed routes_health health_ollama_def Let_def split: sum.splits)

lemma health_catch_body:
  "health_catch w error =
     res_json 503 (JObj [(''status'', JStr ''unhealthy''),
                         (''error'', JStr (err_message error)),
                         (''ollama_url'', JStr (ollamaUrl w))])"
  by (simp add: health_catch_def List.map_filter_simps)

lemma TypeError_text: "err_message (TypeError w t) = TypeError_message w t"
  by (simp add: TypeError_def)





text \<open>
  Claim C9, as stated, fails: a listing call that resolves with a listing whose one entry
  is \<^verbatim>\<open>null\<close>, so that the required model is not among the names listed, is answered with
  status 503 and status "unhealthy", although the runtime was reached.
\<close>

theorem health_null_entry_counterexample:
  "axios_get null_entry_world (ollamaUrl null_entry_world @ ''/api/tags'') (Some 5000)
     = Inr \<lparr>http_status = 200, data = JObj [(''models'', JArr [JNull])]\<rparr>
   \<and> sent (app null_entry_world [] health_request)
     = Some (res_json 503 (JObj
         [(''status'', JStr ''unhealthy''),
          (''error'', JStr ''Cannot read properties of null (reading name)''),
          (''ollama_url'', JStr ''http://localhost:11434'')]))"
proof -
  have "health_try null_entry_world url
          \<lparr>http_status = 200, data = JObj [(''models'', JArr [JNull])]\<rparr>
        = Inl (TypeError null_entry_world (ReadOfNull ''name''))" for url
    by (rule health_try_null_entry [where xs = "[JNull]"]) simp_all
  then show ?thesis
    by (simp add: null_entry_world_def health_request_def listed_def app_health
          health_catch_body TypeError_text example_world_simps)
qed

text \<open>
  Claim C9, amended. Let the listing call resolve with a body that reads as a listing: a
  body other than \<^verbatim>\<open>null\<close> whose \<^verbatim>\<open>models\<close> is absent or falsy, which is treated as an
  empty listing, or is an array without a \<^verbatim>\<open>null\<close> entry. When the required model is not
  the name of an entry, the answer is still 200 with status "healthy" and
  \<^verbatim>\<open>required_model_available\<close> false. The answer to such a listing is 200 whether the model
  is listed or not; and whatever the listing call does, the status is 200 exactly when it
  resolves with a body that reads as a listing. So reachability together with the shape
  of the answer, and never the presence of the model, decides between healthy and
  unhealthy and between 200 and 503.
\<close>

theorem health_model_absent:
  assumes "req_method rq = ''GET''" and "route rq = R_health_ollama" and "json_body rq = Inr b"
  shows "(axios_get w (ollamaUrl w @ ''/api/tags'') (Some 5000) = Inr r
            \<and> data r \<noteq> JNull \<and> \<not> truthy (read_prop (data r) ''models'') \<longrightarrow>
            (\<exists>fields. sent (app w s rq) = Some (res_json 200 (JObj fields))
               \<and> map_of fields ''status'' = Some (JStr ''healthy'')
               \<and> map_of fields ''models_available'' = Some (JNum 0)
               \<and> map_of fields ''required_model_available'' = Some (JBool False)
               \<and> map_of fields ''models'' = Some (JArr [])))
       \<and> (axios_get w (ollamaUrl w @ ''/api/tags'') (Some 5000) = Inr r
            \<and> read_prop (data r) ''models'' = Some (JArr xs) \<and> JNull \<notin> set xs
            \<and> Some (JStr ''llama3.2:1b-instruct-q4_K_M'')
                 \<notin> set (map (\<lambda>m. read_prop m ''name'') xs) \<longrightarrow>
            (\<exists>fields. sent (app w s rq) = Some (res_json 200 (JObj fields))
               \<and> map_of fields ''status'' = Some (JStr ''healthy'')
               \<and> map_of fields ''required_model_available'' = Some (JBool False)))
       \<and> (axios_get w (ollamaUrl w @ ''/api/tags'') (Some 5000) = Inr r
            \<and> read_prop (data r) ''models'' = Some (JArr xs) \<and> JNull \<notin> set xs \<longrightarrow>
            (\<exists>fields. sent (app w s rq) = Some (res_json 200 (JObj fields))
               \<and> map_of fields ''status'' = Some (JStr ''healthy'')))
       \<and> (\<exists>r'. sent (app w s rq) = Some r'
              \<and> (status r' = 200 \<longleftrightarrow>
                   (\<exists>t. axios_get w (ollamaUrl w @ ''/api/tags'') (Some 5000) = Inr t
                        \<and> data t \<noteq> JNull
                        \<and> (\<not> truthy (read_prop (data t) ''models'')
                             \<or> (\<exists>ys. read_prop (data t) ''models'' = Some (JArr ys)
                                      \<and> JNull \<notin> set ys)))))"
proof (intro conjI impI)
  assume "axios_get w (ollamaUrl w @ ''/api/tags'') (Some 5000) = Inr r
            \<and> data r \<noteq> JNull \<and> \<not> truthy (read_prop (data r) ''models'')"
  with assms show "\<exists>fields. sent (app w s rq) = Some (res_json 200 (JObj fields))
               \<and> map_of fields ''status'' = Some (JStr ''healthy'')
               \<and> map_of fields ''models_available'' = Some (JNum 0)
               \<and> map_of fields ''required_model_available'' = Some (JBool False)
               \<and> map_of fields ''models'' = Some (JArr [])"
    by (simp add: app_health health_try_no_models res_json_def)
next
  assume "axios_get w (ollamaUrl w @ ''/api/tags'') (Some 5000) = Inr r
            \<and> read_prop (data r) ''models'' = Some (JArr xs) \<and> JNull \<notin> set xs
            \<and> Some (JStr ''llama3.2:1b-instruct-q4_K_M'')
                 \<notin> set (map (\<lambda>m. read_prop m ''name'') xs)"
  with assms show "\<exists>fields. sent (app w s rq) = Some (res_json 200 (JObj fields))
               \<and> map_of fields ''status'' = Some (JStr ''healthy'')
               \<and> map_of fields ''required_model_available'' = Some (JBool False)"
    by (simp add: app_health health_try_listing res_json_def)
next
  assume "axios_get w (ollamaUrl w @ ''/api/tags'') (Some 5000) = Inr r
            \<and> read_prop (data r) ''models'' = Some (JArr xs) \<and> JNull \<notin> set xs"
  with assms show "\<exists>fields. sent (app w s rq) = Some (res_json 200 (JObj fields))
               \<and> map_of fields ''status'' = Some (JStr ''healthy'')"
    by (simp add: app_health health_try_listing res_json_def)
next
  show "\<exists>r'. sent (app w s rq) = Some r'
          \<and> (status r' = 200 \<longleftrightarrow>
               (\<exists>t. axios_get w (ollamaUrl w @ ''/api/tags'') (Some 5000) = Inr t
                    \<and> data t \<noteq> JNull
                    \<and> (\<not> truthy (read_prop (data t) ''models'')
                         \<or> (\<exists>ys. read_prop (data t) ''models'' = Some (JArr ys)
                                  \<and> JNull \<notin> set ys))))"
  proof (cases "axios_get w (ollamaUrl w @ ''/api/tags'') (Some 5000)")
    case (Inl err)
    with assms show ?thesis
      by (simp add: app_health health_catch_body res_json_def)
  next
    case (Inr t)
    show ?thesis
    proof (cases "data t = JNull")
      case True
      with Inr assms show ?thesis
        by (simp add: app_health health_try_null_body health_catch_body res_json_def)
    next
      case not_null: False
      show ?thesis
      proof (cases "truthy (read_prop (data t) ''models'')")
        case False
        with Inr not_null assms show ?thesis
          by (simp add: app_health health_try_no_models res_json_def)
      next
        case True
        show ?thesis
        proof (cases "\<exists>ys. read_prop (data t) ''models'' = Some (JArr ys)")
          case False
          with True have "health_try w (ollamaUrl w) t
                            = Inl (TypeError w (NotAFunction ''models.some''))"
            by (simp add: health_try_not_array)
          with Inr not_null True False assms show ?thesis
            by (simp add: app_health health_catch_body res_json_def)
        next
          case True
          then obtain ys where ys: "read_prop (data t) ''models'' = Some (JArr ys)" by blast
          show ?thesis
          proof (cases "JNull \<in> set ys")
            case True
            with ys have "health_try w (ollamaUrl w) t = Inl (TypeError w (ReadOfNull ''name''))"
              by (simp add: health_try_null_entry)
            with Inr not_null ys True assms show ?thesis
              by (simp add: app_health health_catch_body res_json_def)
          next
            case False
            with Inr not_null ys assms show ?thesis
              by (simp add: app_health health_try_listing res_json_def)
          qed
        qed
      qed
    qed
  qed
qed

text \<open>
  A listing without the required model, an answer without any listing, and a listing
  with the required model: 200 and "healthy" each time.
\<close>

theorem health_model_absent_witness:
  "(\<exists>fields. sent (app (example_world
                  (listed (JObj [(''models'', JArr [JObj [(''name'', JStr ''mistral:7b'')]])]))
                  (Inl refused)) [] health_request) = Some (res_json 200 (JObj fields))
       \<and> map_of fields ''status'' = Some (JStr ''healthy'')
       \<and> map_of fields ''required_model_available'' = Some (JBool False))
   \<and> (\<exists>fields. sent (app (example_world (listed (JObj [])) (Inl refused)) [] health_request)
                  = Some (res_json 200 (JObj fields))
       \<and> map_of fields ''models_available'' = Some (JNum 0)
       \<and> map_of fields ''required_model_available'' = Some (JBool False))
   \<and> (\<exists>fields. sent (app (example_world
                  (listed (JObj [(''models'',
                     JArr [JObj [(''name'', JStr ''llama3.2:1b-instruct-q4_K_M'')]])]))
                  (Inl refused)) [] health_request) = Some (res_json 200 (JObj fields))
       \<and> map_of fields ''status'' = Some (JStr ''healthy''))"
proof -
  have a: "\<exists>fields. sent (app (example_world
                  (listed (JObj [(''models'', JArr [JObj [(''name'', JStr ''mistral:7b'')]])]))
                  (Inl refused)) [] health_request) = Some (res_json 200 (JObj fields))
       \<and> map_of fields ''status'' = Some (JStr ''healthy'')
       \<and> map_of fields ''required_model_available'' = Some (JBool False)"
    using health_model_absent [where rq = health_request and s = "[]" and b = empty_body
          and w = "example_world
                  (listed (JObj [(''models'', JArr [JObj [(''name'', JStr ''mistral:7b'')]])]))
                  (Inl refused)"
          and r = "\<lparr>http_status = 200,
                    data = JObj [(''models'', JArr [JObj [(''name'', JStr ''mistral:7b'')]])]\<rparr>"
          and xs = "[JObj [(''name'', JStr ''mistral:7b'')]]"]
    by (simp add: health_request_def example_world_simps listed_def)
  have b: "\<exists>fields. sent (app (example_world (listed (JObj [])) (Inl refused)) [] health_request)
                  = Some (res_json 200 (JObj fields))
       \<and> map_of fields ''models_available'' = Some (JNum 0)
       \<and> map_of fields ''required_model_available'' = Some (JBool False)"
    using health_model_absent [where rq = health_request and s = "[]" and b = empty_body
          and w = "example_world (listed (JObj [])) (Inl refused)"
          and r = "\<lparr>http_status = 200, data = JObj []\<rparr>"]
    by (auto simp add: health_request_def example_world_simps listed_def)
  have c: "\<exists>fields. sent (app (example_world
                  (listed (JObj [(''models'',
                     JArr [JObj [(''name'', JStr ''llama3.2:1b-instruct-q4_K_M'')]])]))
                  (Inl refused)) [] health_request) = Some (res_json 200 (JObj fields))
       \<and> map_of fields ''status'' = Some (JStr ''healthy'')"
    using health_model_absent [where rq = health_request and s = "[]" and b = empty_body
          and w = "example_world
                  (listed (JObj [(''models'',
                     JArr [JObj [(''name'', JStr ''llama3.2:1b-instruct-q4_K_M'')]])]))
                  (Inl refused)"
          and r = "\<lparr>http_status = 200,
                    data = JObj [(''models'',
                      JArr [JObj [(''name'', JStr ''llama3.2:1b-instruct-q4_K_M'')]])]\<rparr>"
          and xs = "[JObj [(''name'', JStr ''llama3.2:1b-instruct-q4_K_M'')]]"]
    by (simp add: health_request_def example_world_simps listed_def)
  from a b c show ?thesis by blast
qed

end
